theory Spec2Isabelle
  imports Main
begin

section \<open>Python values used by api_server.py\<close>

text \<open>
  A Python \<open>str\<close> is a sequence of Unicode code points. The non-ASCII literals of the
  source are written out by code point; ASCII literals go through \<open>ascii\<close>.
\<close>

type_synonym pystr = "nat list"

definition ascii :: "string \<Rightarrow> pystr" where
  "ascii s = map of_char s"

text \<open>
  Exceptions. The handlers of the source distinguish \<open>ImportError\<close> (line 257),
  \<open>HTTPException\<close> (line 319) and \<open>Exception\<close> (lines 136, 321). The classes listed
  here are the ones the modelled code can meet; \<open>OtherException\<close> stands for any further
  subclass of \<open>Exception\<close>. \<open>CancelledError\<close>, \<open>KeyboardInterrupt\<close> and \<open>SystemExit\<close>
  derive from \<open>BaseException\<close> only. An \<open>HTTPException\<close> carries its status code.
\<close>

datatype exc_class =
    ImportError
  | ModuleNotFoundError
  | HTTPException nat
  | KeyError
  | NameError
  | UnboundLocalError
  | FileExistsError
  | FileNotFoundError
  | NotADirectoryError
  | PermissionError
  | OtherException
  | CancelledError
  | KeyboardInterrupt
  | SystemExit

text \<open>An exception object: its class and \<open>str(e)\<close>.\<close>

datatype exc = Exc (cls: exc_class) (str_of: pystr)

fun is_ImportError :: "exc_class \<Rightarrow> bool" where
  "is_ImportError ImportError = True"
| "is_ImportError ModuleNotFoundError = True"
| "is_ImportError _ = False"

fun is_HTTPException :: "exc_class \<Rightarrow> bool" where
  "is_HTTPException (HTTPException _) = True"
| "is_HTTPException _ = False"

fun is_Exception :: "exc_class \<Rightarrow> bool" where
  "is_Exception CancelledError = False"
| "is_Exception KeyboardInterrupt = False"
| "is_Exception SystemExit = False"
| "is_Exception _ = True"

text \<open>
  A path is the list of its components below the filesystem root; \<open>p / name\<close> of
  pathlib is \<open>p @ [name]\<close> and \<open>str(p)\<close> joins the components with \<open>/\<close> (code point 47).
\<close>

type_synonym path = "pystr list"

definition joinpath :: "path \<Rightarrow> pystr \<Rightarrow> path" where
  "joinpath p name = p @ [name]"

definition str_path :: "path \<Rightarrow> pystr" where
  "str_path p = (if p = [] then [47] else concat (map (\<lambda>c. 47 # c) p))"

section \<open>Request and response models (lines 140-155)\<close>

record DownloadRequest =
  url :: pystr
  save_path :: "pystr option"
  quality :: "pystr option"
  cookie :: "pystr option"
  proxy :: "pystr option"
  image_download :: "bool option"
  video_download :: "bool option"
  live_download :: "bool option"

text \<open>The declared defaults of the request model, for a given \<open>url\<close>.\<close>

definition default_request :: "pystr \<Rightarrow> DownloadRequest" where
  "default_request u =
     \<lparr>url = u, save_path = None, quality = Some (ascii ''high''), cookie = Some [],
      proxy = None, image_download = Some False, video_download = Some True,
      live_download = Some False\<rparr>"

text \<open>
  What \<open>xhs.extract\<close> hands back: \<open>None\<close> or a list of opaque records \<open>'r\<close>.
  Truthiness (\<open>if result:\<close>, line 297): \<open>None\<close> and the empty list are false.
\<close>

datatype 'r pyresult = PyNone | PyList "'r list"

fun truthy :: "'r pyresult \<Rightarrow> bool" where
  "truthy PyNone = False"
| "truthy (PyList xs) = (xs \<noteq> [])"

text \<open>The dictionary \<open>download_info\<close> built at lines 298-305, one field per key.\<close>

record 'r download_info =
  info_url :: pystr
  info_status :: pystr
  info_message :: pystr
  result_count :: nat
  results :: "'r pyresult"
  timestamp :: pystr

record 'r DownloadResponse =
  success :: bool
  message :: pystr
  data :: "'r download_info option"

text \<open>The message literals of \<open>download_content\<close>, by code point.\<close>

definition msg_module_unavailable :: pystr where
  \<comment> \<open>line 261: "system error: cannot load the download module"\<close>
  "msg_module_unavailable =
     [0x7CFB, 0x7EDF, 0x9519, 0x8BEF, 0xFF1A, 0x65E0, 0x6CD5, 0x52A0, 0x8F7D, 0x4E0B,
      0x8F7D, 0x6A21, 0x5757]"

definition msg_download_succeeded :: pystr where
  \<comment> \<open>line 309: "download completed successfully"\<close>
  "msg_download_succeeded = [0x4E0B, 0x8F7D, 0x6210, 0x529F, 0x5B8C, 0x6210]"

definition msg_no_content :: pystr where
  \<comment> \<open>line 315: "download failed: no content retrieved" (full-width colon)\<close>
  "msg_no_content =
     [0x4E0B, 0x8F7D, 0x5931, 0x8D25, 0xFF1A, 0x672A, 0x83B7, 0x53D6, 0x5230, 0x5185, 0x5BB9]"

definition msg_failed_prefix :: pystr where
  \<comment> \<open>line 326: "download failed: " (ASCII colon and space), followed by \<open>str(e)\<close>\<close>
  "msg_failed_prefix = [0x4E0B, 0x8F7D, 0x5931, 0x8D25, 0x3A, 0x20]"

definition msg_download_done :: pystr where
  \<comment> \<open>line 301: "download finished"\<close>
  "msg_download_done = [0x4E0B, 0x8F7D, 0x5B8C, 0x6210]"

definition name_format_literal :: pystr where
  \<comment> \<open>line 270: \<open>API_\<close> followed by four CJK characters ("work title")\<close>
  "name_format_literal = ascii ''API_'' @ [0x4F5C, 0x54C1, 0x6807, 0x9898]"

section \<open>The extractor interface (class XHS of source.application)\<close>

text \<open>The keyword arguments of the constructor call at lines 267-286.\<close>

record XHS_args =
  arg_work_path :: pystr
  arg_folder_name :: pystr
  arg_name_format :: pystr
  arg_user_agent :: "pystr option"
  arg_cookie :: "pystr option"
  arg_proxy :: "pystr option"
  arg_timeout :: nat
  arg_max_retry :: nat
  arg_record_data :: bool
  arg_image_format :: pystr
  arg_image_download :: "bool option"
  arg_video_download :: "bool option"
  arg_live_download :: "bool option"
  arg_folder_mode :: bool
  arg_download_record :: bool
  arg_author_archive :: bool
  arg_write_mtime :: bool
  arg_language :: pystr

text \<open>
  Everything outside the handler is a parameter: the dictionary supplied by
  \<open>Depends(get_client_info)\<close>, the location of the source file, the outcome of the
  late import of \<open>XHS\<close>, the behaviour of the \<open>XHS\<close> object (constructor,
  \<open>__aenter__\<close>, \<open>extract\<close>, \<open>__aexit__\<close>) and the clock. The \<open>XHS\<close> object is
  identified with its constructor arguments. \<open>None\<close> means "returned normally" where
  the returned value is not used; \<open>__aexit__\<close> receives the pending exception and
  returns whether it suppresses it.
\<close>

record 'r world =
  client_info :: "pystr \<rightharpoonup> pystr"
  project_root :: path
  import_XHS :: "exc option"
  xhs_construct :: "XHS_args \<Rightarrow> exc option"
  xhs_aenter :: "XHS_args \<Rightarrow> exc option"
  xhs_extract :: "XHS_args \<Rightarrow> pystr \<Rightarrow> bool \<Rightarrow> nat option \<Rightarrow> exc + 'r pyresult"
  xhs_aexit :: "XHS_args \<Rightarrow> exc option \<Rightarrow> exc + bool"
  unbound_local_text :: pystr
  now_isoformat :: pystr

text \<open>
  The observable effects of one request, in order: log records (one constructor per
  \<open>logger\<close> call of the handler, carrying the interpolated values) and the calls made
  on the extractor interface.
\<close>

datatype event =
    Log_download_request pystr pystr   \<comment> \<open>line 252, info: url and client id\<close>
  | Log_import_failed exc              \<comment> \<open>line 258, error\<close>
  | Log_request_failed exc             \<comment> \<open>line 322, error\<close>
  | Log_traceback exc                  \<comment> \<open>line 323, error\<close>
  | Construct_called XHS_args          \<comment> \<open>line 267\<close>
  | Enter_called                       \<comment> \<open>line 289, \<open>__aenter__\<close>\<close>
  | Extract_called pystr bool "nat option"  \<comment> \<open>line 290: url, download, index\<close>
  | Exit_called "exc option"           \<comment> \<open>line 289, \<open>__aexit__\<close> with the pending exception\<close>


fun is_Extract :: "event \<Rightarrow> bool" where
  "is_Extract (Extract_called _ _ _) = True"
| "is_Extract _ = False"

fun is_Exit :: "event \<Rightarrow> bool" where
  "is_Exit (Exit_called _) = True"
| "is_Exit _ = False"

section \<open>The download handler (lines 247-328)\<close>

definition client_id_key :: pystr where
  "client_id_key = ascii ''client_id''"

text \<open>\<open>client_info['client_id']\<close> on a dictionary without the key: \<open>str\<close> of a
  \<open>KeyError\<close> is the \<open>repr\<close> of the key (code point 39 is the single quote).\<close>

definition key_error :: "pystr \<Rightarrow> exc" where
  "key_error k = Exc KeyError ([39] @ k @ [39])"

text \<open>Lines 266-286: the constructor arguments, from the request.\<close>

definition xhs_args :: "path \<Rightarrow> DownloadRequest \<Rightarrow> XHS_args" where
  "xhs_args root request =
     \<lparr>arg_work_path = str_path (joinpath root (ascii ''downloads'')),
      arg_folder_name = ascii ''APIDownload'',
      arg_name_format = name_format_literal,
      arg_user_agent = None,
      arg_cookie = (case cookie request of None \<Rightarrow> None
                    | Some c \<Rightarrow> if c \<noteq> [] then Some c else None),
      arg_proxy = (case proxy request of None \<Rightarrow> None
                   | Some p \<Rightarrow> if p \<noteq> [] then Some p else None),
      arg_timeout = 30,
      arg_max_retry = 3,
      arg_record_data = True,
      arg_image_format = ascii ''PNG'',
      arg_image_download = image_download request,
      arg_video_download = video_download request,
      arg_live_download = live_download request,
      arg_folder_mode = True,
      arg_download_record = True,
      arg_author_archive = False,
      arg_write_mtime = False,
      arg_language = ascii ''zh_CN''\<rparr>"

text \<open>
  Lines 289-294, \<open>async with xhs: result = await xhs.extract(...)\<close>. \<open>__aenter__\<close>
  runs first, and when it raises \<open>__aexit__\<close> is not called. Otherwise the body runs and
  \<open>__aexit__\<close> is called once: with no exception when the body returned, with the
  body's exception when it raised; that exception is re-raised unless \<open>__aexit__\<close>
  returns a true value, and an exception raised by \<open>__aexit__\<close> itself replaces
  everything. The value is the binding of the local \<open>result\<close> after the statement:
  \<open>None\<close> when the assignment never happened.
\<close>

definition scoped_extract ::
  "'r world \<Rightarrow> XHS_args \<Rightarrow> pystr \<Rightarrow> (exc + 'r pyresult option) \<times> event list" where
  "scoped_extract w xhs u =
     (case xhs_aenter w xhs of
        Some e \<Rightarrow> (Inl e, [Enter_called])
      | None \<Rightarrow>
          (case xhs_extract w xhs u True None of
             Inr r \<Rightarrow>
               (case xhs_aexit w xhs None of
                  Inl e' \<Rightarrow> (Inl e', [Enter_called, Extract_called u True None, Exit_called None])
                | Inr _ \<Rightarrow>
                    (Inr (Some r), [Enter_called, Extract_called u True None, Exit_called None]))
           | Inl e \<Rightarrow>
               (case xhs_aexit w xhs (Some e) of
                  Inl e' \<Rightarrow>
                    (Inl e', [Enter_called, Extract_called u True None, Exit_called (Some e)])
                | Inr suppress \<Rightarrow>
                    (if suppress then Inr None else Inl e,
                     [Enter_called, Extract_called u True None, Exit_called (Some e)]))))"

text \<open>Lines 296-317: the response for a bound \<open>result\<close>.\<close>

definition map_result :: "'r world \<Rightarrow> DownloadRequest \<Rightarrow> 'r pyresult \<Rightarrow> 'r DownloadResponse" where
  "map_result w request result =
     (if truthy result then
        \<lparr>success = True, message = msg_download_succeeded,
         data = Some \<lparr>info_url = url request, info_status = ascii ''completed'',
                      info_message = msg_download_done,
                      result_count = (case result of PyList xs \<Rightarrow> length xs | PyNone \<Rightarrow> 0),
                      results = result, timestamp = now_isoformat w\<rparr>\<rparr>
      else
        \<lparr>success = False, message = msg_no_content, data = None\<rparr>)"

text \<open>
  Lines 251-317, the body of the outer \<open>try\<close>: a returned response or the exception
  that leaves the block, with the events so far. Reading \<open>result\<close> at line 297 when it
  was never assigned raises \<open>UnboundLocalError\<close>.
\<close>

definition try_block ::
  "'r world \<Rightarrow> DownloadRequest \<Rightarrow> (exc + 'r DownloadResponse) \<times> event list" where
  "try_block w request =
     (case client_info w client_id_key of
        None \<Rightarrow> (Inl (key_error client_id_key), [])
      | Some cid \<Rightarrow>
          (case import_XHS w of
             Some e \<Rightarrow>
               (if is_ImportError (cls e) then
                  (Inr \<lparr>success = False, message = msg_module_unavailable, data = None\<rparr>,
                   [Log_download_request (url request) cid, Log_import_failed e])
                else (Inl e, [Log_download_request (url request) cid]))
           | None \<Rightarrow>
               (let xhs = xhs_args (project_root w) request in
                (case xhs_construct w xhs of
                   Some e \<Rightarrow>
                     (Inl e, [Log_download_request (url request) cid, Construct_called xhs])
                 | None \<Rightarrow>
                     (case scoped_extract w xhs (url request) of
                        (Inl e, evs) \<Rightarrow>
                          (Inl e,
                           [Log_download_request (url request) cid, Construct_called xhs] @ evs)
                      | (Inr None, evs) \<Rightarrow>
                          (Inl (Exc UnboundLocalError (unbound_local_text w)),
                           [Log_download_request (url request) cid, Construct_called xhs] @ evs)
                      | (Inr (Some result), evs) \<Rightarrow>
                          (Inr (map_result w request result),
                           [Log_download_request (url request) cid, Construct_called xhs]
                           @ evs))))))"

text \<open>
  Lines 319-328, the \<open>except\<close> clauses, for the exception \<open>e\<close> that left the
  \<open>try\<close> block after the events \<open>evs\<close>: \<open>HTTPException\<close> is re-raised, any other
  \<open>Exception\<close> is logged and folded into a response, and what is not an \<open>Exception\<close>
  passes through.
\<close>

definition handle_exception ::
  "exc \<Rightarrow> event list \<Rightarrow> (exc + 'r DownloadResponse) \<times> event list" where
  "handle_exception e evs =
     (if is_HTTPException (cls e) then (Inl e, evs)
      else if is_Exception (cls e) then
        (Inr \<lparr>success = False, message = msg_failed_prefix @ str_of e, data = None\<rparr>,
         evs @ [Log_request_failed e, Log_traceback e])
      else (Inl e, evs))"

text \<open>Lines 248-328: the outcome of the handler and the events of the request.\<close>

definition download_content ::
  "'r world \<Rightarrow> DownloadRequest \<Rightarrow> (exc + 'r DownloadResponse) \<times> event list" where
  "download_content w request =
     (case try_block w request of
        (Inr response, evs) \<Rightarrow> (Inr response, evs)
      | (Inl e, evs) \<Rightarrow> handle_exception e evs)"

text \<open>The calls made on the extractor interface, in order.\<close>

fun is_call :: "event \<Rightarrow> bool" where
  "is_call (Construct_called _) = True"
| "is_call Enter_called = True"
| "is_call (Extract_called _ _ _) = True"
| "is_call (Exit_called _) = True"
| "is_call _ = False"

definition xhs_calls :: "event list \<Rightarrow> event list" where
  "xhs_calls evs = filter is_call evs"

text \<open>
  What the web framework makes of the handler's outcome. The route is declared at
  line 247 without a status code, so a returned \<open>DownloadResponse\<close> is sent with
  status 200; a raised \<open>HTTPException\<close> is sent with its own status code; any other
  \<open>Exception\<close> leaving the handler is answered with status 500; for an exception
  that is not an \<open>Exception\<close> (a cancellation, an interrupt) no response is sent.
\<close>

definition http_status :: "exc + 'r DownloadResponse \<Rightarrow> nat option" where
  "http_status outcome =
     (case outcome of
        Inr _ \<Rightarrow> Some 200
      | Inl e \<Rightarrow>
          (case cls e of
             HTTPException code \<Rightarrow> Some code
           | _ \<Rightarrow> if is_Exception (cls e) then Some 500 else None))"

text \<open>A response was sent and its status is in the 500 class.\<close>

definition server_error_class :: "nat option \<Rightarrow> bool" where
  "server_error_class status =
     (case status of Some code \<Rightarrow> 500 \<le> code \<and> code < 600 | None \<Rightarrow> False)"

text \<open>
  The handler reaches the extraction call: the client dictionary has its id, the
  module loads, and neither the constructor nor \<open>__aenter__\<close> raises.
\<close>

definition reaches_extraction :: "'r world \<Rightarrow> DownloadRequest \<Rightarrow> bool" where
  "reaches_extraction w request =
     (client_info w client_id_key \<noteq> None \<and> import_XHS w = None \<and>
      xhs_construct w (xhs_args (project_root w) request) = None \<and>
      xhs_aenter w (xhs_args (project_root w) request) = None)"

text \<open>
  The exception \<open>e\<close> leaves lines 266-294: raised by the constructor, by
  \<open>__aenter__\<close>, by \<open>extract\<close> and passed on by an \<open>__aexit__\<close> that returns false,
  or raised by \<open>__aexit__\<close> itself.
\<close>

definition leaves_session :: "'r world \<Rightarrow> DownloadRequest \<Rightarrow> exc \<Rightarrow> bool" where
  "leaves_session w request e =
     (let xhs = xhs_args (project_root w) request in
      (case xhs_construct w xhs of
         Some e' \<Rightarrow> e' = e
       | None \<Rightarrow>
           (case xhs_aenter w xhs of
              Some e' \<Rightarrow> e' = e
            | None \<Rightarrow>
                (case xhs_extract w xhs (url request) True None of
                   Inl e0 \<Rightarrow>
                     (case xhs_aexit w xhs (Some e0) of
                        Inl e' \<Rightarrow> e' = e
                      | Inr suppress \<Rightarrow> \<not> suppress \<and> e0 = e)
                 | Inr _ \<Rightarrow>
                     (case xhs_aexit w xhs None of Inl e' \<Rightarrow> e' = e | Inr _ \<Rightarrow> False)))))"

text \<open>The \<open>success\<close> field of the outcome, when the handler returned a response.\<close>

definition response_success :: "exc + 'r DownloadResponse \<Rightarrow> bool option" where
  "response_success outcome =
     (case outcome of Inr response \<Rightarrow> Some (success response) | Inl _ \<Rightarrow> None)"

text \<open>
  A test double for the collaborators: the module import, \<open>extract\<close> and
  \<open>__aexit__\<close> behave as given, the constructor and \<open>__aenter__\<close> succeed, and the
  client dictionary holds the id \<open>tester\<close>.
\<close>

definition spy_world :: "exc option \<Rightarrow> exc + 'r pyresult \<Rightarrow> exc + bool \<Rightarrow> 'r world" where
  "spy_world imported extracted released =
     \<lparr>client_info = [client_id_key \<mapsto> ascii ''tester''],
      project_root = [ascii ''app''],
      import_XHS = imported,
      xhs_construct = (\<lambda>_. None),
      xhs_aenter = (\<lambda>_. None),
      xhs_extract = (\<lambda>_ _ _ _. extracted),
      xhs_aexit = (\<lambda>_ _. released),
      unbound_local_text = ascii ''cannot access local variable'',
      now_isoformat = ascii ''2024-01-01T00:00:00''\<rparr>"

section \<open>Configuration resolution at import time (lines 46-62)\<close>

text \<open>
  The configuration values read by the file: \<open>env_config\<close> is a dictionary
  (subscripted at lines 81, 131-133), \<open>api_config\<close> an object with the rate-limit
  attributes (lines 134, 219-221).
\<close>

datatype cfg_value = VStr pystr | VBool bool | VInt int

fun value_truthy :: "cfg_value \<Rightarrow> bool" where
  "value_truthy (VStr t) = (t \<noteq> [])"
| "value_truthy (VBool b) = b"
| "value_truthy (VInt i) = (i \<noteq> 0)"

type_synonym env_config = "pystr \<rightharpoonup> cfg_value"

record api_config =
  rate_limit_enabled :: bool
  rate_limit_requests :: int
  rate_limit_window :: int
























section \<open>The startup routine (lines 100-138)\<close>

text \<open>
  The filesystem as \<open>Path.mkdir\<close> observes it: each existing path is a regular file
  or a directory, and a directory is writable or not.
\<close>

datatype node = File | Dir bool

type_synonym filesystem = "path \<rightharpoonup> node"

definition is_dir :: "filesystem \<Rightarrow> path \<Rightarrow> bool" where
  "is_dir fs p = (case fs p of Some (Dir _) \<Rightarrow> True | _ \<Rightarrow> False)"

definition os_error :: "exc_class \<Rightarrow> pystr \<Rightarrow> path \<Rightarrow> exc" where
  "os_error c what p = Exc c (what @ ascii '': '' @ [39] @ str_path p @ [39])"

text \<open>
  \<open>os.mkdir(p)\<close>: fails when \<open>p\<close> exists, when its parent is missing or is not a
  directory, or when the parent is not writable; otherwise it adds the directory.
\<close>

definition os_mkdir :: "filesystem \<Rightarrow> path \<Rightarrow> exc + filesystem" where
  "os_mkdir fs p =
     (case fs p of
        Some _ \<Rightarrow> Inl (os_error FileExistsError (ascii ''[Errno 17] File exists'') p)
      | None \<Rightarrow>
          (case fs (butlast p) of
             None \<Rightarrow>
               Inl (os_error FileNotFoundError (ascii ''[Errno 2] No such file or directory'') p)
           | Some File \<Rightarrow>
               Inl (os_error NotADirectoryError (ascii ''[Errno 20] Not a directory'') p)
           | Some (Dir writable) \<Rightarrow>
               (if writable then Inr (fs(p \<mapsto> Dir True))
                else Inl (os_error PermissionError (ascii ''[Errno 13] Permission denied'') p))))"

text \<open>
  \<open>Path.mkdir(exist_ok=...)\<close> with \<open>parents=False\<close>: the error of \<open>os.mkdir\<close> is
  swallowed only under \<open>exist_ok\<close> and when the path is a directory;
  \<open>FileNotFoundError\<close> is always re-raised.
\<close>

definition mkdir :: "filesystem \<Rightarrow> path \<Rightarrow> bool \<Rightarrow> exc + filesystem" where
  "mkdir fs p exist_ok =
     (case os_mkdir fs p of
        Inr fs' \<Rightarrow> Inr fs'
      | Inl e \<Rightarrow>
          (if cls e = FileNotFoundError then Inl e
           else if \<not> exist_ok \<or> \<not> is_dir fs p then Inl e
           else Inr fs))"

text \<open>The log records of the startup routine, one constructor per \<open>logger\<close> call.\<close>

datatype boot_log =
    Info_downloads_dir path     \<comment> \<open>line 110\<close>
  | Info_temp_dir path          \<comment> \<open>line 115\<close>
  | Info_volume_dir path        \<comment> \<open>line 120\<close>
  | Info_log_dir path           \<comment> \<open>line 125\<close>
  | Info_started                \<comment> \<open>line 130\<close>
  | Info_environment cfg_value  \<comment> \<open>line 131\<close>
  | Info_auth bool              \<comment> \<open>line 132\<close>
  | Info_port cfg_value         \<comment> \<open>line 133\<close>
  | Info_rate_limit bool        \<comment> \<open>line 134\<close>
  | Error_startup_failed exc    \<comment> \<open>line 137\<close>
  | Error_traceback exc         \<comment> \<open>line 138\<close>

record boot_state =
  files :: filesystem
  boot_records :: "boot_log list"

text \<open>
  A statement maps the state to the exception it raises, if any, and the state it
  leaves. A block runs its statements in order and stops at the first exception.
\<close>

type_synonym stmt = "boot_state \<Rightarrow> exc option \<times> boot_state"

fun run_block :: "stmt list \<Rightarrow> stmt" where
  "run_block [] s = (None, s)"
| "run_block (st # sts) s =
     (case st s of (Some e, s') \<Rightarrow> (Some e, s') | (None, s') \<Rightarrow> run_block sts s')"

text \<open>\<open>d.mkdir(exist_ok=True)\<close> followed by the \<open>logger.info\<close> that confirms \<open>d\<close>.\<close>

definition ensure_dir :: "path \<Rightarrow> (path \<Rightarrow> boot_log) \<Rightarrow> stmt" where
  "ensure_dir d confirmed s =
     (case mkdir (files s) d True of
        Inl e \<Rightarrow> (Some e, s)
      | Inr fs' \<Rightarrow> (None, s\<lparr>files := fs', boot_records := boot_records s @ [confirmed d]\<rparr>))"

definition log_record :: "boot_log \<Rightarrow> stmt" where
  "log_record l s = (None, s\<lparr>boot_records := boot_records s @ [l]\<rparr>)"

text \<open>A \<open>logger.info\<close> whose message subscripts \<open>env_config\<close>.\<close>

definition log_lookup :: "env_config \<Rightarrow> pystr \<Rightarrow> (cfg_value \<Rightarrow> boot_log) \<Rightarrow> stmt" where
  "log_lookup env k record_of s =
     (case env k of
        None \<Rightarrow> (Some (key_error k), s)
      | Some v \<Rightarrow> (None, s\<lparr>boot_records := boot_records s @ [record_of v]\<rparr>))"

text \<open>Lines 104-134, the body of the \<open>try\<close>.\<close>

definition startup_try :: "api_config \<Rightarrow> env_config \<Rightarrow> path \<Rightarrow> stmt" where
  "startup_try api env root =
     run_block
       [ensure_dir (joinpath root (ascii ''downloads'')) Info_downloads_dir,
        ensure_dir (joinpath root (ascii ''temp'')) Info_temp_dir,
        ensure_dir (joinpath root (ascii ''Volume'')) Info_volume_dir,
        ensure_dir (joinpath root (ascii ''logs'')) Info_log_dir,
        log_record Info_started,
        log_lookup env (ascii ''environment'') Info_environment,
        log_lookup env (ascii ''api_enabled'') (\<lambda>v. Info_auth (value_truthy v)),
        log_lookup env (ascii ''port'') Info_port,
        log_record (Info_rate_limit (rate_limit_enabled api))]"

text \<open>
  Lines 103 and 136-138: an \<open>Exception\<close> is logged twice and dropped; the result is
  the exception that leaves the routine, if any.
\<close>

definition startup_event :: "api_config \<Rightarrow> env_config \<Rightarrow> path \<Rightarrow> stmt" where
  "startup_event api env root s =
     (case startup_try api env root s of
        (None, s') \<Rightarrow> (None, s')
      | (Some e, s') \<Rightarrow>
          (if is_Exception (cls e) then
             (None,
              s'\<lparr>boot_records := boot_records s' @ [Error_startup_failed e, Error_traceback e]\<rparr>)
           else (Some e, s')))"

text \<open>The directories of a filesystem.\<close>

definition directories :: "filesystem \<Rightarrow> path set" where
  "directories fs = {p. is_dir fs p}"

text \<open>The four directories of lines 108-124, in the order the routine visits them.\<close>

definition startup_dirs :: "path \<Rightarrow> path list" where
  "startup_dirs root =
     [joinpath root (ascii ''downloads''), joinpath root (ascii ''temp''),
      joinpath root (ascii ''Volume''), joinpath root (ascii ''logs'')]"

text \<open>
  \<open>mkdir(exist_ok=True)\<close> on each directory of a list in turn, up to the first one
  that raises: the exception, if any, and the filesystem left behind.
\<close>

fun ensure_all :: "filesystem \<Rightarrow> path list \<Rightarrow> exc option \<times> filesystem" where
  "ensure_all fs [] = (None, fs)"
| "ensure_all fs (d # ds) =
     (case mkdir fs d True of Inl e \<Rightarrow> (Some e, fs) | Inr fs' \<Rightarrow> ensure_all fs' ds)"

text \<open>
  Filesystems for tests, below the root \<open>/app\<close>: an empty writable project directory,
  and one where \<open>temp\<close> is a regular file.
\<close>

definition fresh_fs :: filesystem where
  "fresh_fs = [[] \<mapsto> Dir True, [ascii ''app''] \<mapsto> Dir True]"

definition blocked_fs :: filesystem where
  "blocked_fs = fresh_fs([ascii ''app'', ascii ''temp''] \<mapsto> File)"

definition sample_api_config :: api_config where
  "sample_api_config =
     \<lparr>rate_limit_enabled = True, rate_limit_requests = 100, rate_limit_window = 60\<rparr>"

definition sample_env_config :: env_config where
  "sample_env_config =
     [ascii ''environment'' \<mapsto> VStr (ascii ''simple''), ascii ''api_enabled'' \<mapsto> VBool True,
      ascii ''port'' \<mapsto> VInt 8000, ascii ''debug'' \<mapsto> VBool False]"

section \<open>Properties of the startup routine\<close>

lemma mkdir_existing: "is_dir fs d \<Longrightarrow> mkdir fs d True = Inr fs"
  by (auto simp: mkdir_def os_mkdir_def is_dir_def os_error_def split: option.splits node.splits)

lemma mkdir_cases:
  "mkdir fs d True = Inr fs' \<Longrightarrow>
     fs' = fs \<and> is_dir fs d \<or> fs' = fs(d \<mapsto> Dir True) \<and> fs d = None"
  by (auto simp: mkdir_def os_mkdir_def os_error_def split: option.splits node.splits if_splits)

lemma mkdir_creates: "mkdir fs d True = Inr fs' \<Longrightarrow> is_dir fs' d"
  by (drule mkdir_cases) (auto simp: is_dir_def)

lemma mkdir_keeps: "mkdir fs d True = Inr fs' \<Longrightarrow> is_dir fs p \<Longrightarrow> is_dir fs' p"
  by (drule mkdir_cases) (auto simp: is_dir_def split: option.splits node.splits)

lemma mkdir_error_is_Exception: "mkdir fs d ok = Inl e \<Longrightarrow> is_Exception (cls e)"
  by (auto simp: mkdir_def os_mkdir_def os_error_def split: option.splits node.splits if_splits sum.splits)

lemma ensure_all_existing: "\<forall>d \<in> set ds. is_dir fs d \<Longrightarrow> ensure_all fs ds = (None, fs)"
  by (induction ds) (simp_all add: mkdir_existing)

lemma ensure_all_append_existing:
  "\<forall>d \<in> set done. is_dir fs d \<Longrightarrow> ensure_all fs (done @ ds) = ensure_all fs ds"
  by (induction "done") (simp_all add: mkdir_existing)

lemma ensure_all_replay:
  "\<forall>d \<in> set done. is_dir fs d \<Longrightarrow>
   snd (ensure_all (snd (ensure_all fs ds)) (done @ ds)) = snd (ensure_all fs ds)"
proof (induction ds arbitrary: fs "done")
  case Nil
  then show ?case by (simp add: ensure_all_existing)
next
  case (Cons d ds)
  show ?case
  proof (cases "mkdir fs d True")
    case (Inl e)
    then show ?thesis using Cons.prems by (simp add: ensure_all_append_existing)
  next
    case (Inr fs')
    have "\<forall>p \<in> set (done @ [d]). is_dir fs' p"
      using Cons.prems Inr by (auto intro: mkdir_creates mkdir_keeps)
    from Cons.IH [OF this] show ?thesis using Inr by simp
  qed
qed

lemma ensure_all_idempotent:
  "snd (ensure_all (snd (ensure_all fs ds)) ds) = snd (ensure_all fs ds)"
  using ensure_all_replay [of "[]" fs ds] by simp

lemma ensure_all_success_dirs:
  "ensure_all fs ds = (None, fs') \<Longrightarrow> (\<forall>d \<in> set ds. is_dir fs' d) \<and> (\<forall>p. is_dir fs p \<longrightarrow> is_dir fs' p)"
proof (induction ds arbitrary: fs)
  case Nil
  then show ?case by simp
next
  case (Cons d ds)
  then obtain fs1 where m: "mkdir fs d True = Inr fs1" and r: "ensure_all fs1 ds = (None, fs')"
    by (auto split: sum.splits)
  from Cons.IH [OF r] mkdir_creates [OF m] mkdir_keeps [OF m] show ?case by auto
qed

lemma ensure_all_error_is_Exception:
  "fst (ensure_all fs ds) = Some e \<Longrightarrow> is_Exception (cls e)"
  by (induction ds arbitrary: fs) (auto split: sum.splits dest: mkdir_error_is_Exception)

text \<open>The \<open>try\<close> block in terms of \<open>ensure_all\<close>.\<close>

lemmas startup_defs = startup_try_def ensure_dir_def log_record_def log_lookup_def startup_dirs_def

lemma startup_try_files:
  "files (snd (startup_try api env root s)) = snd (ensure_all (files s) (startup_dirs root))"
  by (simp add: startup_defs split: sum.splits option.splits)

lemma startup_try_outcome:
  "fst (startup_try api env root s) =
     (case fst (ensure_all (files s) (startup_dirs root)) of
        Some e \<Rightarrow> Some e
      | None \<Rightarrow>
          (if env (ascii ''environment'') = None then Some (key_error (ascii ''environment''))
           else if env (ascii ''api_enabled'') = None then Some (key_error (ascii ''api_enabled''))
           else if env (ascii ''port'') = None then Some (key_error (ascii ''port''))
           else None))"
  by (simp add: startup_defs split: sum.splits option.splits)

lemma startup_try_failure:
  "fst (ensure_all (files s) (startup_dirs root)) = Some e \<Longrightarrow>
   fst (startup_try api env root s) = Some e"
  by (simp add: startup_try_outcome)

lemma startup_try_error_is_Exception:
  "fst (startup_try api env root s) = Some e \<Longrightarrow> is_Exception (cls e)"
  by (auto simp: startup_try_outcome key_error_def split: option.splits if_splits
      dest: ensure_all_error_is_Exception)

lemma startup_event_files:
  "files (snd (startup_event api env root s)) = files (snd (startup_try api env root s))"
  by (simp add: startup_event_def split: prod.splits option.splits)

lemma startup_event_returns: "fst (startup_event api env root s) = None"
  using startup_try_error_is_Exception [of api env root s]
  by (auto simp: startup_event_def split: prod.splits option.splits)


lemma startup_try_success_dirs:
  assumes "fst (startup_try api env root s) = None"
  shows "\<forall>d \<in> set (startup_dirs root). is_dir (files (snd (startup_try api env root s))) d"
proof -
  from assms have "fst (ensure_all (files s) (startup_dirs root)) = None"
    by (auto simp: startup_try_outcome split: option.splits)
  then have "ensure_all (files s) (startup_dirs root) =
      (None, snd (ensure_all (files s) (startup_dirs root)))"
    by (metis prod.collapse)
  from ensure_all_success_dirs [OF this] show ?thesis
    by (simp add: startup_try_files)
qed

lemma startup_try_replay:
  assumes "fst (startup_try api env root s) = None"
    and "\<forall>d \<in> set (startup_dirs root). is_dir (files t) d"
  shows "fst (startup_try api env root t) = None"
  using assms by (auto simp: startup_try_outcome ensure_all_existing split: option.splits if_splits)

lemma startup_event_success:
  "fst (startup_try api env root s) = None \<Longrightarrow>
   startup_event api env root s = startup_try api env root s"
  by (cases "startup_try api env root s") (simp add: startup_event_def)

text \<open>
  Claim C7. The startup routine is idempotent. It never raises, run once or twice; a
  second run leaves the filesystem, and so the set of directories, exactly as the first
  run left it; when the first run got through its \<open>try\<close> block, the four
  directories (downloads, temp, Volume, logs) exist afterwards and the second run gets
  through it too; and \<open>mkdir(exist_ok=True)\<close> on an existing directory succeeds and
  changes nothing.
\<close>

theorem bootstrap_idempotent:
  "fst (startup_event api env root s) = None \<and>
   fst (startup_event api env root (snd (startup_event api env root s))) = None \<and>
   files (snd (startup_event api env root (snd (startup_event api env root s)))) =
     files (snd (startup_event api env root s)) \<and>
   directories (files (snd (startup_event api env root (snd (startup_event api env root s))))) =
     directories (files (snd (startup_event api env root s))) \<and>
   (fst (startup_try api env root s) = None \<longrightarrow>
      (\<forall>d \<in> set (startup_dirs root). is_dir (files (snd (startup_event api env root s))) d) \<and>
      fst (startup_try api env root (snd (startup_event api env root s))) = None) \<and>
   (is_dir fs d \<longrightarrow> mkdir fs d True = Inr fs)"
proof -
  let ?s1 = "snd (startup_event api env root s)"
  have same: "files (snd (startup_event api env root ?s1)) = files ?s1"
    by (simp add: startup_event_files startup_try_files ensure_all_idempotent)
  have ok: "(\<forall>d \<in> set (startup_dirs root). is_dir (files ?s1) d) \<and>
      fst (startup_try api env root ?s1) = None"
    if first: "fst (startup_try api env root s) = None"
  proof -
    have dirs: "\<forall>d \<in> set (startup_dirs root). is_dir (files ?s1) d"
      using startup_try_success_dirs [OF first] by (simp add: startup_event_success [OF first])
    with startup_try_replay [OF first dirs] show ?thesis by simp
  qed
  show ?thesis
    using same ok by (simp add: startup_event_returns mkdir_existing)
qed

lemma fresh_run_ok:
  "fst (startup_try sample_api_config sample_env_config [ascii ''app'']
          \<lparr>files = fresh_fs, boot_records = []\<rparr>) = None"
  by (simp add: startup_try_outcome startup_dirs_def joinpath_def mkdir_def os_mkdir_def
      is_dir_def fresh_fs_def sample_env_config_def ascii_def)

theorem bootstrap_idempotent_witness:
  "fst (startup_try sample_api_config sample_env_config [ascii ''app'']
          \<lparr>files = fresh_fs, boot_records = []\<rparr>) = None \<and>
   is_dir fresh_fs [ascii ''app''] \<and>
   fst (startup_try sample_api_config sample_env_config [ascii ''app'']
          (snd (startup_event sample_api_config sample_env_config [ascii ''app'']
                  \<lparr>files = fresh_fs, boot_records = []\<rparr>))) = None \<and>
   mkdir fresh_fs [ascii ''app''] True = Inr fresh_fs"
  using bootstrap_idempotent [of sample_api_config sample_env_config "[ascii ''app'']"
      "\<lparr>files = fresh_fs, boot_records = []\<rparr>" fresh_fs "[ascii ''app'']"] fresh_run_ok
  by (simp add: is_dir_def fresh_fs_def)

text \<open>
  Claim C8. A filesystem failure in the startup routine is logged and is not fatal:
  the routine never raises; the first \<open>mkdir\<close> that fails interrupts the \<open>try\<close>
  block with its exception; and for whatever exception interrupts the \<open>try\<close> block,
  the routine returns normally after appending the two error records that carry it.
\<close>

theorem bootstrap_failure_logged_not_fatal:
  "fst (startup_event api env root s) = None \<and>
   (\<forall>e. fst (ensure_all (files s) (startup_dirs root)) = Some e \<longrightarrow>
        fst (startup_try api env root s) = Some e) \<and>
   (\<forall>e. fst (startup_try api env root s) = Some e \<longrightarrow>
        startup_event api env root s =
          (None, (snd (startup_try api env root s))
             \<lparr>boot_records := boot_records (snd (startup_try api env root s)) @
                [Error_startup_failed e, Error_traceback e]\<rparr>))"
proof (intro conjI allI impI)
  show "fst (startup_event api env root s) = None" by (rule startup_event_returns)
next
  fix e assume "fst (ensure_all (files s) (startup_dirs root)) = Some e"
  then show "fst (startup_try api env root s) = Some e" by (rule startup_try_failure)
next
  fix e assume e: "fst (startup_try api env root s) = Some e"
  from startup_try_error_is_Exception [OF e] e
  show "startup_event api env root s =
          (None, (snd (startup_try api env root s))
             \<lparr>boot_records := boot_records (snd (startup_try api env root s)) @
                [Error_startup_failed e, Error_traceback e]\<rparr>)"
    by (auto simp: startup_event_def split: prod.splits option.splits)
qed

lemma blocked_run_fails:
  "fst (ensure_all blocked_fs (startup_dirs [ascii ''app''])) =
     Some (os_error FileExistsError (ascii ''[Errno 17] File exists'') [ascii ''app'', ascii ''temp''])"
  by (simp add: startup_dirs_def joinpath_def mkdir_def os_mkdir_def os_error_def
      is_dir_def blocked_fs_def fresh_fs_def ascii_def)

theorem bootstrap_failure_logged_not_fatal_witness:
  "fst (ensure_all blocked_fs (startup_dirs [ascii ''app''])) =
     Some (os_error FileExistsError (ascii ''[Errno 17] File exists'') [ascii ''app'', ascii ''temp'']) \<and>
   fst (startup_event sample_api_config sample_env_config [ascii ''app'']
          \<lparr>files = blocked_fs, boot_records = []\<rparr>) = None \<and>
   boot_records (snd (startup_event sample_api_config sample_env_config [ascii ''app'']
          \<lparr>files = blocked_fs, boot_records = []\<rparr>)) =
     [Info_downloads_dir [ascii ''app'', ascii ''downloads''],
      Error_startup_failed
        (os_error FileExistsError (ascii ''[Errno 17] File exists'') [ascii ''app'', ascii ''temp'']),
      Error_traceback
        (os_error FileExistsError (ascii ''[Errno 17] File exists'') [ascii ''app'', ascii ''temp''])]"
proof -
  let ?s = "\<lparr>files = blocked_fs, boot_records = []\<rparr>"
  let ?e = "os_error FileExistsError (ascii ''[Errno 17] File exists'') [ascii ''app'', ascii ''temp'']"
  have recs: "boot_records (snd (startup_try sample_api_config sample_env_config [ascii ''app''] ?s)) =
      [Info_downloads_dir [ascii ''app'', ascii ''downloads'']]"
    by (simp add: startup_try_def ensure_dir_def startup_dirs_def joinpath_def mkdir_def os_mkdir_def
      os_error_def is_dir_def blocked_fs_def fresh_fs_def ascii_def)
  from bootstrap_failure_logged_not_fatal
      [of sample_api_config sample_env_config "[ascii ''app'']" ?s] blocked_run_fails recs
  show ?thesis by simp
qed

section \<open>The calls the handler makes on the extractor\<close>

lemma calls_handle_exception: "xhs_calls (snd (handle_exception e evs)) = xhs_calls evs"
  by (simp add: handle_exception_def xhs_calls_def)

lemma calls_download_content:
  "xhs_calls (snd (download_content w request)) = xhs_calls (snd (try_block w request))"
  by (simp add: download_content_def calls_handle_exception split: prod.splits sum.splits)

lemma calls_scoped_extract:
  "xhs_calls (snd (scoped_extract w x u)) =
     (if xhs_aenter w x \<noteq> None then [Enter_called]
      else [Enter_called, Extract_called u True None,
            Exit_called (case xhs_extract w x u True None of Inl e \<Rightarrow> Some e | Inr _ \<Rightarrow> None)])"
  by (simp add: scoped_extract_def xhs_calls_def split: option.splits sum.splits)

lemma calls_try_block:
  "xhs_calls (snd (try_block w request)) =
     (if client_info w client_id_key = None \<or> import_XHS w \<noteq> None then []
      else Construct_called (xhs_args (project_root w) request) #
        (if xhs_construct w (xhs_args (project_root w) request) \<noteq> None then []
         else xhs_calls (snd (scoped_extract w (xhs_args (project_root w) request) (url request)))))"
  by (simp add: try_block_def xhs_calls_def Let_def split: option.splits sum.splits prod.splits)

lemma calls_of_handler:
  "xhs_calls (snd (download_content w request)) =
     (if client_info w client_id_key = None \<or> import_XHS w \<noteq> None then []
      else if xhs_construct w (xhs_args (project_root w) request) \<noteq> None
        then [Construct_called (xhs_args (project_root w) request)]
      else if xhs_aenter w (xhs_args (project_root w) request) \<noteq> None
        then [Construct_called (xhs_args (project_root w) request), Enter_called]
      else [Construct_called (xhs_args (project_root w) request), Enter_called,
            Extract_called (url request) True None,
            Exit_called
              (case xhs_extract w (xhs_args (project_root w) request) (url request) True None of
                 Inl e \<Rightarrow> Some e | Inr _ \<Rightarrow> None)])"
  by (simp add: calls_download_content calls_try_block calls_scoped_extract)

lemma filter_Extract_calls: "filter is_Extract (xhs_calls evs) = filter is_Extract evs"
proof -
  have "\<And>ev. (is_call ev \<and> is_Extract ev) = is_Extract ev"
    by (case_tac ev) simp_all
  then show ?thesis by (simp add: xhs_calls_def conj_commute)
qed

lemma filter_Exit_calls: "filter is_Exit (xhs_calls evs) = filter is_Exit evs"
proof -
  have "\<And>ev. (is_call ev \<and> is_Exit ev) = is_Exit ev"
    by (case_tac ev) simp_all
  then show ?thesis by (simp add: xhs_calls_def conj_commute)
qed


lemma call_in_trace: "is_call ev \<Longrightarrow> ev \<in> set evs \<Longrightarrow> ev \<in> set (xhs_calls evs)"
  by (simp add: xhs_calls_def)

lemma call_from_trace: "ev \<in> set (xhs_calls evs) \<Longrightarrow> ev \<in> set evs"
  by (simp add: xhs_calls_def)


lemma spy_reaches:
  "reaches_extraction (spy_world None extracted released) request"
  by (simp add: reaches_extraction_def spy_world_def)


text \<open>
  Claim C3. \<open>__aexit__\<close> runs as often as \<open>extract\<close> is called. Once the session
  is entered, whatever \<open>extract\<close> does (returns results, returns nothing, raises) and
  whatever \<open>__aexit__\<close> itself does, \<open>__aexit__\<close> runs exactly once, directly after
  the \<open>extract\<close> call, and it is handed the exception \<open>extract\<close> raised, if any.
\<close>

theorem session_released_exactly_once:
  "length (filter is_Exit (snd (download_content w request))) =
     length (filter is_Extract (snd (download_content w request))) \<and>
   (reaches_extraction w request \<longrightarrow>
      length (filter is_Exit (snd (download_content w request))) = 1 \<and>
      xhs_calls (snd (download_content w request)) =
        [Construct_called (xhs_args (project_root w) request), Enter_called,
         Extract_called (url request) True None,
         Exit_called
           (case xhs_extract w (xhs_args (project_root w) request) (url request) True None of
              Inl e \<Rightarrow> Some e | Inr _ \<Rightarrow> None)])"
proof (intro conjI impI)
  have "length (filter is_Exit (xhs_calls (snd (download_content w request)))) =
     length (filter is_Extract (xhs_calls (snd (download_content w request))))"
    by (simp add: calls_of_handler)
  then show "length (filter is_Exit (snd (download_content w request))) =
     length (filter is_Extract (snd (download_content w request)))"
    by (simp add: filter_Exit_calls filter_Extract_calls)
next
  assume r: "reaches_extraction w request"
  then have "length (filter is_Exit (xhs_calls (snd (download_content w request)))) = 1"
    by (simp add: calls_of_handler reaches_extraction_def)
  then show "length (filter is_Exit (snd (download_content w request))) = 1"
    by (simp add: filter_Exit_calls)
  from r show "xhs_calls (snd (download_content w request)) =
        [Construct_called (xhs_args (project_root w) request), Enter_called,
         Extract_called (url request) True None,
         Exit_called
           (case xhs_extract w (xhs_args (project_root w) request) (url request) True None of
              Inl e \<Rightarrow> Some e | Inr _ \<Rightarrow> None)]"
    by (simp add: calls_of_handler reaches_extraction_def)
qed

theorem session_released_exactly_once_witness:
  "reaches_extraction
     (spy_world None (Inl (Exc OtherException (ascii ''boom''))) (Inr False) :: nat world)
     (default_request (ascii ''u'')) \<and>
   length (filter is_Exit (snd (download_content
     (spy_world None (Inl (Exc OtherException (ascii ''boom''))) (Inr False) :: nat world)
     (default_request (ascii ''u''))))) = 1 \<and>
   xhs_calls (snd (download_content
     (spy_world None (Inl (Exc OtherException (ascii ''boom''))) (Inr False) :: nat world)
     (default_request (ascii ''u'')))) =
     [Construct_called (xhs_args [ascii ''app''] (default_request (ascii ''u''))), Enter_called,
      Extract_called (ascii ''u'') True None,
      Exit_called (Some (Exc OtherException (ascii ''boom'')))]"
proof -
  let ?w = "spy_world None (Inl (Exc OtherException (ascii ''boom''))) (Inr False) :: nat world"
  let ?r = "default_request (ascii ''u'')"
  have r: "reaches_extraction ?w ?r" by (rule spy_reaches)
  have p: "project_root ?w = [ascii ''app'']" "url ?r = ascii ''u''"
    "xhs_extract ?w = (\<lambda>_ _ _ _. Inl (Exc OtherException (ascii ''boom'')))"
    by (simp_all add: spy_world_def default_request_def)
  from session_released_exactly_once [of ?w ?r] r show ?thesis
    by (simp add: p)
qed

section \<open>The request fields reach the extractor only through the constructor arguments\<close>

lemma try_block_depends:
  assumes "url r1 = url r2" and "xhs_args (project_root w) r1 = xhs_args (project_root w) r2"
  shows "try_block w r1 = try_block w r2"
  unfolding try_block_def map_result_def assms ..

lemma download_content_depends:
  assumes "url r1 = url r2" and "xhs_args (project_root w) r1 = xhs_args (project_root w) r2"
  shows "download_content w r1 = download_content w r2"
  unfolding download_content_def try_block_depends [OF assms] ..

lemma constructed_with:
  assumes "Construct_called a \<in> set (snd (download_content w request))"
  shows "a = xhs_args (project_root w) request"
proof -
  from assms have "Construct_called a \<in> set (xhs_calls (snd (download_content w request)))"
    by (rule call_in_trace [rotated]) simp
  then show ?thesis by (simp add: calls_of_handler split: if_splits)
qed

lemma constructed_when_loaded:
  assumes "client_info w client_id_key \<noteq> None" and "import_XHS w = None"
  shows "Construct_called (xhs_args (project_root w) request) \<in>
           set (snd (download_content w request))"
proof -
  from assms have "Construct_called (xhs_args (project_root w) request) \<in>
           set (xhs_calls (snd (download_content w request)))"
    by (simp add: calls_of_handler)
  then show ?thesis by (rule call_from_trace)
qed

text \<open>
  Claim C10. For a request whose \<open>cookie\<close> is absent or the empty string (the
  declared default), the argument computed for the constructor is \<open>cookie=None\<close> and
  every constructor call the handler makes carries \<open>cookie=None\<close>; likewise for
  \<open>proxy\<close>. The constructor is called, with the arguments computed from the request,
  whenever the client id is present and the module loads. The handler's outcome and
  events for an empty-string cookie or proxy are those for an omitted one.
\<close>

theorem empty_cookie_or_proxy_is_omitted:
  "((cookie request = None \<or> cookie request = Some []) \<longrightarrow>
      arg_cookie (xhs_args root request) = None \<and>
      (\<forall>a. Construct_called a \<in> set (snd (download_content w request)) \<longrightarrow>
           arg_cookie a = None)) \<and>
   ((proxy request = None \<or> proxy request = Some []) \<longrightarrow>
      arg_proxy (xhs_args root request) = None \<and>
      (\<forall>a. Construct_called a \<in> set (snd (download_content w request)) \<longrightarrow>
           arg_proxy a = None)) \<and>
   (client_info w client_id_key \<noteq> None \<and> import_XHS w = None \<longrightarrow>
      Construct_called (xhs_args (project_root w) request) \<in>
        set (snd (download_content w request))) \<and>
   download_content w (request\<lparr>cookie := Some []\<rparr>) = download_content w (request\<lparr>cookie := None\<rparr>) \<and>
   download_content w (request\<lparr>proxy := Some []\<rparr>) = download_content w (request\<lparr>proxy := None\<rparr>)"
proof (intro conjI impI allI)
  assume c: "cookie request = None \<or> cookie request = Some []"
  then show "arg_cookie (xhs_args root request) = None"
    by (auto simp: xhs_args_def)
  fix a assume "Construct_called a \<in> set (snd (download_content w request))"
  then have "a = xhs_args (project_root w) request" by (rule constructed_with)
  with c show "arg_cookie a = None" by (auto simp: xhs_args_def)
next
  assume p: "proxy request = None \<or> proxy request = Some []"
  then show "arg_proxy (xhs_args root request) = None"
    by (auto simp: xhs_args_def)
  fix a assume "Construct_called a \<in> set (snd (download_content w request))"
  then have "a = xhs_args (project_root w) request" by (rule constructed_with)
  with p show "arg_proxy a = None" by (auto simp: xhs_args_def)
next
  assume "client_info w client_id_key \<noteq> None \<and> import_XHS w = None"
  then show "Construct_called (xhs_args (project_root w) request) \<in>
        set (snd (download_content w request))"
    by (simp add: constructed_when_loaded)
next
  show "download_content w (request\<lparr>cookie := Some []\<rparr>) = download_content w (request\<lparr>cookie := None\<rparr>)"
    by (rule download_content_depends) (simp_all add: xhs_args_def)
next
  show "download_content w (request\<lparr>proxy := Some []\<rparr>) = download_content w (request\<lparr>proxy := None\<rparr>)"
    by (rule download_content_depends) (simp_all add: xhs_args_def)
qed

theorem empty_cookie_or_proxy_is_omitted_witness:
  "cookie (default_request (ascii ''u'')) = Some [] \<and>
   proxy (default_request (ascii ''u'')) = None \<and>
   client_info (spy_world None (Inr (PyList [7::nat])) (Inr False)) client_id_key \<noteq> None \<and>
   import_XHS (spy_world None (Inr (PyList [7::nat])) (Inr False)) = None \<and>
   Construct_called (xhs_args [ascii ''app''] (default_request (ascii ''u''))) \<in>
     set (snd (download_content (spy_world None (Inr (PyList [7::nat])) (Inr False))
                 (default_request (ascii ''u'')))) \<and>
   arg_cookie (xhs_args [ascii ''app''] (default_request (ascii ''u''))) = None \<and>
   arg_proxy (xhs_args [ascii ''app''] (default_request (ascii ''u''))) = None"
proof -
  let ?w = "spy_world None (Inr (PyList [7::nat])) (Inr False)"
  let ?r = "default_request (ascii ''u'')"
  have f: "client_info ?w client_id_key \<noteq> None" "import_XHS ?w = None"
    "project_root ?w = [ascii ''app'']"
    by (simp_all add: spy_world_def)
  have c: "cookie ?r = Some []" "proxy ?r = None" by (simp_all add: default_request_def)
  from empty_cookie_or_proxy_is_omitted [of ?r "[ascii ''app'']" ?w] f c
  show ?thesis by simp
qed

section \<open>The outcome of the handler\<close>

lemma outcome_download_content:
  "fst (download_content w request) =
     (case fst (try_block w request) of
        Inr response \<Rightarrow> Inr response
      | Inl e \<Rightarrow> fst (handle_exception e []))"
  by (simp add: download_content_def handle_exception_def split: prod.splits sum.splits)

lemma outcome_try_block_reached:
  assumes "reaches_extraction w request"
  shows "fst (try_block w request) =
     (case fst (scoped_extract w (xhs_args (project_root w) request) (url request)) of
        Inl e \<Rightarrow> Inl e
      | Inr None \<Rightarrow> Inl (Exc UnboundLocalError (unbound_local_text w))
      | Inr (Some result) \<Rightarrow> Inr (map_result w request result))"
  using assms
  by (auto simp: try_block_def reaches_extraction_def Let_def
      split: option.splits sum.splits prod.splits)

lemma outcome_scoped_extract_returned:
  assumes "xhs_aenter w x = None" and "xhs_extract w x u True None = Inr result"
  shows "fst (scoped_extract w x u) =
     (case xhs_aexit w x None of Inl e \<Rightarrow> Inl e | Inr _ \<Rightarrow> Inr (Some result))"
  using assms by (simp add: scoped_extract_def split: sum.splits)

lemma outcome_try_block_raised:
  assumes "client_info w client_id_key \<noteq> None" and "import_XHS w = None"
    and "leaves_session w request e"
  shows "fst (try_block w request) = Inl e"
  using assms
  by (auto simp: try_block_def leaves_session_def scoped_extract_def Let_def
      split: option.splits sum.splits prod.splits if_splits)

lemma outcome_import_failed:
  assumes "client_info w client_id_key = Some cid" and "import_XHS w = Some e"
    and "is_ImportError (cls e)"
  shows "try_block w request =
     (Inr \<lparr>success = False, message = msg_module_unavailable, data = None\<rparr>,
      [Log_download_request (url request) cid, Log_import_failed e])"
  using assms by (simp add: try_block_def)


lemma spy_fields:
  "client_info (spy_world i x r) client_id_key = Some (ascii ''tester'')"
  "project_root (spy_world i x r) = [ascii ''app'']"
  "import_XHS (spy_world i x r) = i"
  "xhs_construct (spy_world i x r) a = None"
  "xhs_aenter (spy_world i x r) a = None"
  "xhs_extract (spy_world i x r) a u d n = x"
  "xhs_aexit (spy_world i x r) a p = r"
  "now_isoformat (spy_world i x r) = ascii ''2024-01-01T00:00:00''"
  by (simp_all add: spy_world_def)

text \<open>
  Claim C2, as amended. When \<open>extract\<close> returns and \<open>__aexit__\<close> then returns
  without raising: a non-empty result list of length \<open>n\<close> gives a returned response
  with \<open>success\<close> true, \<open>result_count = n\<close>, \<open>results\<close> the list as the extractor
  gave it, and the timestamp read at line 304; \<open>None\<close> or an empty list gives a
  returned response with \<open>success\<close> false, the "no content" message and no data.
  Nothing is raised in either case.
\<close>

theorem extraction_result_mapped:
  assumes "reaches_extraction w request"
    and "xhs_extract w (xhs_args (project_root w) request) (url request) True None = Inr result"
    and "xhs_aexit w (xhs_args (project_root w) request) None = Inr b"
  shows "(\<forall>xs. result = PyList xs \<and> xs \<noteq> [] \<longrightarrow>
            fst (download_content w request) =
              Inr \<lparr>success = True, message = msg_download_succeeded,
                   data = Some \<lparr>info_url = url request, info_status = ascii ''completed'',
                                info_message = msg_download_done, result_count = length xs,
                                results = PyList xs, timestamp = now_isoformat w\<rparr>\<rparr>) \<and>
         (result = PyNone \<or> result = PyList [] \<longrightarrow>
            fst (download_content w request) =
              Inr \<lparr>success = False, message = msg_no_content, data = None\<rparr>)"
proof -
  from assms(1) have "xhs_aenter w (xhs_args (project_root w) request) = None"
    by (simp add: reaches_extraction_def)
  from outcome_scoped_extract_returned [OF this assms(2)] assms(3)
  have "fst (scoped_extract w (xhs_args (project_root w) request) (url request)) = Inr (Some result)"
    by simp
  with outcome_try_block_reached [OF assms(1)]
  have "fst (try_block w request) = Inr (map_result w request result)" by simp
  then have "fst (download_content w request) = Inr (map_result w request result)"
    by (simp add: outcome_download_content)
  then show ?thesis by (auto simp: map_result_def)
qed

theorem extraction_result_mapped_witness:
  "reaches_extraction (spy_world None (Inr (PyList [7, 8 :: nat])) (Inr False))
     (default_request (ascii ''u'')) \<and>
   fst (download_content (spy_world None (Inr (PyList [7, 8 :: nat])) (Inr False))
          (default_request (ascii ''u''))) =
     Inr \<lparr>success = True, message = msg_download_succeeded,
          data = Some \<lparr>info_url = ascii ''u'', info_status = ascii ''completed'',
                       info_message = msg_download_done, result_count = 2,
                       results = PyList [7, 8], timestamp = ascii ''2024-01-01T00:00:00''\<rparr>\<rparr>"
proof -
  let ?w = "spy_world None (Inr (PyList [7, 8 :: nat])) (Inr False)"
  let ?r = "default_request (ascii ''u'')"
  have r: "reaches_extraction ?w ?r" by (rule spy_reaches)
  have u: "url ?r = ascii ''u''" by (simp add: default_request_def)
  from extraction_result_mapped [of ?w ?r "PyList [7, 8]" False] r
  show ?thesis by (simp add: spy_fields u)
qed

text \<open>
  The claim as stated fails when the release raises: \<open>extract\<close> returned two items,
  \<open>__aexit__\<close> raised, and the handler answers \<open>success\<close> false.
\<close>

theorem release_failure_counterexample:
  "xhs_extract
     (spy_world None (Inr (PyList [7, 8 :: nat])) (Inl (Exc OtherException (ascii ''close failed''))))
     (xhs_args [ascii ''app''] (default_request (ascii ''u''))) (ascii ''u'') True None =
     Inr (PyList [7, 8]) \<and>
   fst (download_content
     (spy_world None (Inr (PyList [7, 8 :: nat])) (Inl (Exc OtherException (ascii ''close failed''))))
     (default_request (ascii ''u''))) =
     Inr \<lparr>success = False, message = msg_failed_prefix @ ascii ''close failed'', data = None\<rparr>"
proof -
  let ?w = "spy_world None (Inr (PyList [7, 8 :: nat])) (Inl (Exc OtherException (ascii ''close failed'')))"
  let ?r = "default_request (ascii ''u'')"
  have "leaves_session ?w ?r (Exc OtherException (ascii ''close failed''))"
    by (simp add: leaves_session_def spy_fields)
  then have "fst (try_block ?w ?r) = Inl (Exc OtherException (ascii ''close failed''))"
    by (intro outcome_try_block_raised) (simp_all add: spy_fields)
  then show ?thesis
    by (simp add: outcome_download_content handle_exception_def spy_fields)
qed

text \<open>
  Claim C4, as amended. After the module has loaded, an exception that leaves the
  construction or the scoped extraction is folded into a returned response with
  \<open>success\<close> false, no data and the message "download failed: " followed by
  \<open>str(e)\<close>, when it is an \<open>Exception\<close> other than \<open>HTTPException\<close>; an
  \<open>HTTPException\<close>, and an exception that is not an \<open>Exception\<close>, is raised out of
  the handler unchanged.
\<close>

theorem session_errors_folded_or_reraised:
  assumes "client_info w client_id_key \<noteq> None" and "import_XHS w = None"
    and "leaves_session w request e"
  shows "(is_Exception (cls e) \<and> \<not> is_HTTPException (cls e) \<longrightarrow>
            fst (download_content w request) =
              Inr \<lparr>success = False, message = msg_failed_prefix @ str_of e, data = None\<rparr>) \<and>
         (is_HTTPException (cls e) \<or> \<not> is_Exception (cls e) \<longrightarrow>
            fst (download_content w request) = Inl e)"
  using outcome_try_block_raised [OF assms]
  by (auto simp: outcome_download_content handle_exception_def)

theorem session_errors_folded_or_reraised_witness:
  "client_info (spy_world None (Inl (Exc OtherException (ascii ''boom''))) (Inr False) :: nat world)
     client_id_key \<noteq> None \<and>
   leaves_session (spy_world None (Inl (Exc OtherException (ascii ''boom''))) (Inr False) :: nat world)
     (default_request (ascii ''u'')) (Exc OtherException (ascii ''boom'')) \<and>
   fst (download_content
     (spy_world None (Inl (Exc OtherException (ascii ''boom''))) (Inr False) :: nat world)
     (default_request (ascii ''u''))) =
     Inr \<lparr>success = False, message = msg_failed_prefix @ ascii ''boom'', data = None\<rparr>"
proof -
  let ?w = "spy_world None (Inl (Exc OtherException (ascii ''boom''))) (Inr False) :: nat world"
  let ?r = "default_request (ascii ''u'')"
  have l: "leaves_session ?w ?r (Exc OtherException (ascii ''boom''))"
    by (simp add: leaves_session_def spy_fields)
  have c: "client_info ?w client_id_key \<noteq> None" "import_XHS ?w = None"
    by (simp_all add: spy_fields)
  from session_errors_folded_or_reraised [OF c l] c l show ?thesis by simp
qed

text \<open>
  The claim as stated fails for an \<open>HTTPException\<close> raised by \<open>extract\<close>: line 320
  re-raises it.
\<close>

theorem http_exception_propagates_counterexample:
  "leaves_session
     (spy_world None (Inl (Exc (HTTPException 429) (ascii ''429: slow down''))) (Inr False) :: nat world)
     (default_request (ascii ''u'')) (Exc (HTTPException 429) (ascii ''429: slow down'')) \<and>
   fst (download_content
     (spy_world None (Inl (Exc (HTTPException 429) (ascii ''429: slow down''))) (Inr False) :: nat world)
     (default_request (ascii ''u''))) = Inl (Exc (HTTPException 429) (ascii ''429: slow down''))"
proof -
  let ?w = "spy_world None (Inl (Exc (HTTPException 429) (ascii ''429: slow down''))) (Inr False) :: nat world"
  let ?r = "default_request (ascii ''u'')"
  have l: "leaves_session ?w ?r (Exc (HTTPException 429) (ascii ''429: slow down''))"
    by (simp add: leaves_session_def spy_fields)
  then have "fst (try_block ?w ?r) = Inl (Exc (HTTPException 429) (ascii ''429: slow down''))"
    by (intro outcome_try_block_raised) (simp_all add: spy_fields)
  with l show ?thesis
    by (simp add: outcome_download_content handle_exception_def)
qed


text \<open>
  Claim C1, as amended. The handler does not inspect the url. For a request with the
  empty url that reaches the extraction call, the extractor is constructed, entered,
  asked once to extract the empty url and released; when \<open>extract\<close> returns and the
  release does not raise, \<open>success\<close> is the truthiness of the result, and a result
  that is \<open>None\<close> or empty gives the "no content" response.
\<close>

theorem empty_url_is_extracted:
  assumes "url request = []" and "reaches_extraction w request"
  shows "xhs_calls (snd (download_content w request)) =
           [Construct_called (xhs_args (project_root w) request), Enter_called,
            Extract_called [] True None,
            Exit_called
              (case xhs_extract w (xhs_args (project_root w) request) [] True None of
                 Inl e \<Rightarrow> Some e | Inr _ \<Rightarrow> None)] \<and>
         (xhs_extract w (xhs_args (project_root w) request) [] True None = Inr result \<and>
          xhs_aexit w (xhs_args (project_root w) request) None = Inr b \<longrightarrow>
            response_success (fst (download_content w request)) = Some (truthy result) \<and>
            (\<not> truthy result \<longrightarrow>
               fst (download_content w request) =
                 Inr \<lparr>success = False, message = msg_no_content, data = None\<rparr>))"
proof (intro conjI impI)
  from assms show "xhs_calls (snd (download_content w request)) =
           [Construct_called (xhs_args (project_root w) request), Enter_called,
            Extract_called [] True None,
            Exit_called
              (case xhs_extract w (xhs_args (project_root w) request) [] True None of
                 Inl e \<Rightarrow> Some e | Inr _ \<Rightarrow> None)]"
    by (simp add: calls_of_handler reaches_extraction_def)
next
  assume h: "xhs_extract w (xhs_args (project_root w) request) [] True None = Inr result \<and>
            xhs_aexit w (xhs_args (project_root w) request) None = Inr b"
  from assms(2) have "xhs_aenter w (xhs_args (project_root w) request) = None"
    by (simp add: reaches_extraction_def)
  from outcome_scoped_extract_returned [OF this, of "url request" result] h assms(1)
  have "fst (scoped_extract w (xhs_args (project_root w) request) (url request)) = Inr (Some result)"
    by simp
  with outcome_try_block_reached [OF assms(2)]
  have "fst (try_block w request) = Inr (map_result w request result)" by simp
  then have m: "fst (download_content w request) = Inr (map_result w request result)"
    by (simp add: outcome_download_content)
  show "response_success (fst (download_content w request)) = Some (truthy result)"
    by (simp add: m response_success_def map_result_def)
  show "fst (download_content w request) =
                 Inr \<lparr>success = False, message = msg_no_content, data = None\<rparr>"
    if "\<not> truthy result"
    using that by (simp add: m map_result_def)
qed

theorem empty_url_is_extracted_witness:
  "url (default_request []) = [] \<and>
   reaches_extraction (spy_world None (Inr (PyList [7 :: nat])) (Inr False)) (default_request []) \<and>
   xhs_calls (snd (download_content (spy_world None (Inr (PyList [7 :: nat])) (Inr False))
                     (default_request []))) =
     [Construct_called (xhs_args [ascii ''app''] (default_request [])), Enter_called,
      Extract_called [] True None, Exit_called None] \<and>
   response_success (fst (download_content (spy_world None (Inr (PyList [7 :: nat])) (Inr False))
                     (default_request []))) = Some True"
proof -
  let ?w = "spy_world None (Inr (PyList [7 :: nat])) (Inr False)"
  let ?r = "default_request []"
  have u: "url ?r = []" by (simp add: default_request_def)
  have r: "reaches_extraction ?w ?r" by (rule spy_reaches)
  from empty_url_is_extracted [OF u r, of "PyList [7]" False] u r show ?thesis
    by (simp add: spy_fields)
qed

text \<open>
  The claim as stated fails: with the empty url and an extractor that finds nothing,
  the extractor is constructed and \<open>extract\<close> is called once.
\<close>

theorem empty_url_not_rejected_counterexample:
  "url (default_request []) = [] \<and>
   xhs_calls (snd (download_content (spy_world None (Inr (PyList ([] :: nat list))) (Inr False))
                     (default_request []))) =
     [Construct_called (xhs_args [ascii ''app''] (default_request [])), Enter_called,
      Extract_called [] True None, Exit_called None] \<and>
   length (filter is_Extract
     (snd (download_content (spy_world None (Inr (PyList ([] :: nat list))) (Inr False))
                     (default_request [])))) = 1"
proof -
  let ?w = "spy_world None (Inr (PyList ([] :: nat list))) (Inr False)"
  let ?r = "default_request []"
  have u: "url ?r = []" by (simp add: default_request_def)
  have c: "xhs_calls (snd (download_content ?w ?r)) =
     [Construct_called (xhs_args [ascii ''app''] ?r), Enter_called,
      Extract_called [] True None, Exit_called None]"
    by (simp add: calls_of_handler spy_fields u)
  have "length (filter is_Extract (snd (download_content ?w ?r))) =
      length (filter is_Extract (xhs_calls (snd (download_content ?w ?r))))"
    by (simp add: filter_Extract_calls)
  also have "\<dots> = 1" by (simp add: c)
  finally show ?thesis using u c by simp
qed

text \<open>
  Claim C6, as amended. When the import of the download module raises an
  \<open>ImportError\<close>, the handler returns (status 200) the response with \<open>success\<close>
  false, the fixed "cannot load the download module" message and no data; the
  exception appears in the log record of line 258 only; and no call is made on the
  extractor.
\<close>

theorem module_load_failure_response:
  assumes "client_info w client_id_key = Some cid" and "import_XHS w = Some e"
    and "is_ImportError (cls e)"
  shows "download_content w request =
           (Inr \<lparr>success = False, message = msg_module_unavailable, data = None\<rparr>,
            [Log_download_request (url request) cid, Log_import_failed e]) \<and>
         http_status (fst (download_content w request)) = Some 200 \<and>
         xhs_calls (snd (download_content w request)) = []"
  using outcome_import_failed [OF assms, of request]
  by (simp add: download_content_def http_status_def xhs_calls_def)

theorem module_load_failure_response_witness:
  "client_info (spy_world (Some (Exc ModuleNotFoundError (ascii ''No module named source'')))
       (Inr PyNone) (Inr False) :: nat world) client_id_key = Some (ascii ''tester'') \<and>
   is_ImportError (cls (Exc ModuleNotFoundError (ascii ''No module named source''))) \<and>
   download_content (spy_world (Some (Exc ModuleNotFoundError (ascii ''No module named source'')))
       (Inr PyNone) (Inr False) :: nat world) (default_request (ascii ''u'')) =
     (Inr \<lparr>success = False, message = msg_module_unavailable, data = None\<rparr>,
      [Log_download_request (ascii ''u'') (ascii ''tester''),
       Log_import_failed (Exc ModuleNotFoundError (ascii ''No module named source''))])"
proof -
  let ?e = "Exc ModuleNotFoundError (ascii ''No module named source'')"
  let ?w = "spy_world (Some ?e) (Inr PyNone) (Inr False) :: nat world"
  have c: "client_info ?w client_id_key = Some (ascii ''tester'')" "import_XHS ?w = Some ?e"
    by (simp_all add: spy_fields)
  have i: "is_ImportError (cls ?e)" by simp
  have u: "url (default_request (ascii ''u'')) = ascii ''u''" by (simp add: default_request_def)
  from module_load_failure_response [OF c i, of "default_request (ascii ''u'')"] c i u
  show ?thesis by simp
qed

text \<open>
  The claim as stated fails: the response to a failed import is sent with status 200,
  which is not in the 500 class.
\<close>

theorem module_load_failure_not_5xx_counterexample:
  "import_XHS (spy_world (Some (Exc ModuleNotFoundError (ascii ''No module named source'')))
       (Inr PyNone) (Inr False) :: nat world) =
     Some (Exc ModuleNotFoundError (ascii ''No module named source'')) \<and>
   http_status (fst (download_content
         (spy_world (Some (Exc ModuleNotFoundError (ascii ''No module named source'')))
            (Inr PyNone) (Inr False) :: nat world) (default_request (ascii ''u'')))) = Some 200 \<and>
   \<not> server_error_class (http_status (fst (download_content
         (spy_world (Some (Exc ModuleNotFoundError (ascii ''No module named source'')))
            (Inr PyNone) (Inr False) :: nat world) (default_request (ascii ''u'')))))"
proof -
  let ?e = "Exc ModuleNotFoundError (ascii ''No module named source'')"
  let ?w = "spy_world (Some ?e) (Inr PyNone) (Inr False) :: nat world"
  have c: "client_info ?w client_id_key = Some (ascii ''tester'')" "import_XHS ?w = Some ?e"
    by (simp_all add: spy_fields)
  have i: "is_ImportError (cls ?e)" by simp
  from outcome_import_failed [OF c i, of "default_request (ascii ''u'')"] c(2)
  show ?thesis by (simp add: download_content_def http_status_def server_error_class_def)
qed

section \<open>Properties of the configuration resolution\<close>



















end
